theory Spec2Isabelle
  imports Main "HOL-Library.Word" "HOL-Library.Multiset"
begin

section \<open>Time values\<close>

text \<open>
  Go's \<^verbatim>\<open>time.Duration\<close> is a signed 64-bit count of nanoseconds: arithmetic on it wraps,
  \<open>sint\<close> reads its value. A \<^verbatim>\<open>time.Time\<close> is modelled as the number of nanoseconds since
  the zero time value \<^verbatim>\<open>time.Time{}\<close>; the standard library's \<^verbatim>\<open>Add\<close> moves a time by a
  duration. The clock (\<^verbatim>\<open>time.Now()\<close>) is an input of every function that reads it.
\<close>

type_synonym uint32 = "32 word"
type_synonym uint64 = "64 word"
type_synonym Duration = "64 word"
type_synonym Time = int

definition zeroTime :: Time where
  "zeroTime = 0"

definition Time_Add :: "Time \<Rightarrow> Duration \<Rightarrow> Time" where
  "Time_Add t d = t + sint d"

section \<open>Retry reasons, actions and strategies (retry.go)\<close>

text \<open>
  \<^verbatim>\<open>RetryReason\<close> is an interface with three methods. The reasons of the client library are
  plain struct values holding the three answers, and \<^verbatim>\<open>==\<close> on two reasons compares those
  values; a record with HOL equality is that.
\<close>

record RetryReason =
  AllowsNonIdempotentRetry :: bool
  AlwaysRetry :: bool
  Description :: string

text \<open>
  \<^verbatim>\<open>RetryAction\<close>: the two implementations of retry.go. A strategy may also return a nil
  action, which is \<open>None\<close> of \<open>RetryAction option\<close>.
\<close>

datatype RetryAction = NoRetryRetryAction | WithDurationRetryAction Duration

fun Duration :: "RetryAction \<Rightarrow> Duration" where
  "Duration NoRetryRetryAction = 0"
| "Duration (WithDurationRetryAction WithDuration) = WithDuration"

text \<open>What the \<^verbatim>\<open>RetryRequest\<close> interface shows of a request: its four getters.\<close>

record RetryRequest =
  RetryAttempts :: uint32
  Identifier :: string
  Idempotent :: bool
  RetryReasons :: "RetryReason list"

text \<open>
  \<^verbatim>\<open>RetryStrategy\<close> is an interface with the single method \<^verbatim>\<open>RetryAfter\<close>; a strategy is the
  function that method computes. A nil strategy is \<open>None\<close> of \<open>RetryStrategy option\<close>.
\<close>

type_synonym RetryStrategy = "RetryRequest \<Rightarrow> RetryReason \<Rightarrow> RetryAction option"

type_synonym BackoffCalculator = "uint32 \<Rightarrow> Duration"

text \<open>
  \<^verbatim>\<open>BestEffortRetryStrategy\<close>: the field is a Go func value and can be nil (the struct and
  its field are exported); calling a nil func panics.
\<close>

record BestEffortRetryStrategy =
  BackoffCalculator :: "BackoffCalculator option"

datatype panic = NilFuncCall

text \<open>
  \<^verbatim>\<open>NewBestEffortRetryStrategy\<close>: a nil calculator is replaced by the library's exponential
  backoff (1ms, 500ms, factor 2), which is code of gocbcore and a parameter here.
\<close>

definition NewBestEffortRetryStrategy ::
  "BackoffCalculator \<Rightarrow> BackoffCalculator option \<Rightarrow> BestEffortRetryStrategy" where
  "NewBestEffortRetryStrategy ExponentialBackoff calculator =
     \<lparr>BackoffCalculator =
        Some (case calculator of None \<Rightarrow> ExponentialBackoff | Some c \<Rightarrow> c)\<rparr>"

definition RetryAfter ::
  "BestEffortRetryStrategy \<Rightarrow> RetryRequest \<Rightarrow> RetryReason \<Rightarrow> panic + RetryAction" where
  "RetryAfter rs req reason =
     (if Idempotent req \<or> AllowsNonIdempotentRetry reason then
        (case BackoffCalculator rs of
           None \<Rightarrow> Inl NilFuncCall
         | Some calc \<Rightarrow> Inr (WithDurationRetryAction (calc (RetryAttempts req))))
      else Inr NoRetryRetryAction)"

section \<open>The request and the retry decision (retry.go)\<close>

text \<open>
  \<^verbatim>\<open>retriableRequestPs\<close>. The send function and the trace context are effects of the retry
  loop and are not fields of the model: the loop below takes the outcome of each send.
\<close>

record retriableRequestPs =
  reasons :: "RetryReason list"
  attempts :: uint32
  operation :: string
  "identifier" :: string
  idempotent :: bool
  strategy :: "RetryStrategy option"

text \<open>
  \<^verbatim>\<open>newRetriableRequestPS\<close>: the identifier is the first six characters of a fresh UUID,
  passed in; the counter and the reasons start at their zero values.
\<close>

definition newRetriableRequestPS ::
  "string \<Rightarrow> string \<Rightarrow> bool \<Rightarrow> RetryStrategy option \<Rightarrow> retriableRequestPs" where
  "newRetriableRequestPS uuid op idem strat =
     \<lparr>reasons = [], attempts = 0, operation = op, identifier = take 6 uuid,
      idempotent = idem, strategy = strat\<rparr>"

definition asRetryRequest :: "retriableRequestPs \<Rightarrow> RetryRequest" where
  "asRetryRequest w =
     \<lparr>RetryAttempts = attempts w, Identifier = identifier w, Idempotent = idempotent w,
      RetryReasons = reasons w\<rparr>"

text \<open>The search loop of \<^verbatim>\<open>recordRetryAttempt\<close>: scan from index 0, stop at the first match.\<close>

fun found :: "RetryReason list \<Rightarrow> RetryReason \<Rightarrow> bool" where
  "found [] reason = False"
| "found (r # rs) reason = (if r = reason then True else found rs reason)"

definition recordRetryAttempt :: "retriableRequestPs \<Rightarrow> RetryReason \<Rightarrow> retriableRequestPs" where
  "recordRetryAttempt w reason =
     (let w1 = w\<lparr>attempts := attempts w + 1\<rparr>
      in if \<not> found (reasons w1) reason then w1\<lparr>reasons := reasons w1 @ [reason]\<rparr> else w1)"

text \<open>
  \<^verbatim>\<open>retryOrchMaybeRetry\<close>. \<open>ControlledBackoff\<close> is gocbcore's function of that name and
  \<open>now\<close> the reading of the clock; the result is the pair the Go function returns and the
  request as the call leaves it.
\<close>

definition retryOrchMaybeRetry ::
  "(uint32 \<Rightarrow> Duration) \<Rightarrow> Time \<Rightarrow> retriableRequestPs \<Rightarrow> RetryReason
     \<Rightarrow> (bool \<times> Time) \<times> retriableRequestPs" where
  "retryOrchMaybeRetry ControlledBackoff now req reason =
     (if AlwaysRetry reason then
        (let duration = ControlledBackoff (attempts req);
             req' = recordRetryAttempt req reason
         in ((True, Time_Add now duration), req'))
      else
        (case strategy req of
           None \<Rightarrow> ((False, zeroTime), req)
         | Some retryStrategy \<Rightarrow>
             (case retryStrategy (asRetryRequest req) reason of
                None \<Rightarrow> ((False, zeroTime), req)
              | Some action \<Rightarrow>
                  (let duration = Duration action
                   in if duration = 0 then ((False, zeroTime), req)
                      else ((True, Time_Add now duration), recordRetryAttempt req reason)))))"

text \<open>
  A run of consecutive retry decisions on one request, each with its clock reading and its
  reason, as the retry loop makes them one after another: \<open>Some\<close> of the request after the
  last decision when every decision was to retry, \<open>None\<close> as soon as one was not.
\<close>

fun retryDecisions ::
  "(uint32 \<Rightarrow> Duration) \<Rightarrow> retriableRequestPs \<Rightarrow> (Time \<times> RetryReason) list
     \<Rightarrow> retriableRequestPs option" where
  "retryDecisions ControlledBackoff req [] = Some req"
| "retryDecisions ControlledBackoff req ((now, reason) # rest) =
     (case retryOrchMaybeRetry ControlledBackoff now req reason of
        ((True, wake), req') \<Rightarrow> retryDecisions ControlledBackoff req' rest
      | ((False, wake), req') \<Rightarrow> None)"

section \<open>The retry loop (retry.go)\<close>

text \<open>
  Errors. The errors of the transport, of the error mapper and of the codec are values the
  model does not look into (\<open>OtherError\<close>, told apart by a text); the others are the
  library's \<^verbatim>\<open>ErrUnambiguousTimeout\<close> and \<^verbatim>\<open>ErrRequestCanceled\<close> and the two errors a
  context reports from \<^verbatim>\<open>ctx.Err()\<close>.
\<close>

datatype error =
    OtherError string
  | ErrUnambiguousTimeout
  | ErrRequestCanceled
  | DeadlineExceeded
  | Canceled

text \<open>\<^verbatim>\<open>TimeoutError\<close>, with the six fields \<^verbatim>\<open>handleRetriableRequest\<close> sets.\<close>

record TimeoutError =
  InnerError :: error
  OperationID :: string
  Opaque :: string
  TimeObserved :: Duration
  RetryReasons :: "RetryReason list"
  RetryAttempts :: uint32

text \<open>
  What \<^verbatim>\<open>handleRetriableRequest\<close> returns as its error: an error as the mapper gave it, a
  \<^verbatim>\<open>*TimeoutError\<close>, or the generic error \<^verbatim>\<open>makeGenericError(e, nil)\<close> around \<open>e\<close>.
\<close>

datatype failure =
    ErrMapped error
  | ErrTimeoutError TimeoutError
  | ErrGenericError error

text \<open>
  \<^verbatim>\<open>time.Since(t)\<close> is \<^verbatim>\<open>time.Now().Sub(t)\<close>, and \<^verbatim>\<open>Sub\<close> returns the largest (smallest)
  duration when the difference is beyond it.
\<close>

definition Time_Sub :: "Time \<Rightarrow> Time \<Rightarrow> Duration" where
  "Time_Sub t u =
     (let d = t - u
      in if d < - (2 ^ 63) then word_of_int (- (2 ^ 63))
         else if 2 ^ 63 - 1 < d then word_of_int (2 ^ 63 - 1)
         else word_of_int d)"

text \<open>
  The \<^verbatim>\<open>select\<close> of the loop: the timer fires, or the context is done first and reports
  \<^verbatim>\<open>ctx.Err()\<close>.
\<close>

datatype wait = TimerFired | ContextDone error

text \<open>
  What one turn of the loop takes from outside: the outcome of \<^verbatim>\<open>req.Send(ctx)\<close> (\<open>Inl\<close> a
  non-nil error, \<open>Inr\<close> the result), the clock as \<^verbatim>\<open>retryOrchMaybeRetry\<close> reads it, the
  clock as \<^verbatim>\<open>time.Since\<close> reads it, and the outcome of the \<^verbatim>\<open>select\<close>.
\<close>

record 'res attempt =
  sendResult :: "error + 'res"
  decisionClock :: Time
  failureClock :: Time
  waitOutcome :: wait

text \<open>
  \<^verbatim>\<open>handleRetriableRequest\<close>. The error mapper \<^verbatim>\<open>mapPsErrorToGocbError\<close> and the test
  \<^verbatim>\<open>errors.Is(gocbErr, ErrTimeout)\<close> are parameters, as is \<^verbatim>\<open>ControlledBackoff\<close>;
  \<^verbatim>\<open>errors.Is(err, context.DeadlineExceeded)\<close> is equality with \<open>DeadlineExceeded\<close>. Each
  turn uses up one \<open>attempt\<close>; the loop has no bound of its own, and \<open>None\<close> says that the
  turns given were all retried. The result is what the Go function returns (\<open>Inl\<close> the
  error) and the request as the loop leaves it.
\<close>

fun handleRetriableRequest ::
  "(uint32 \<Rightarrow> Duration) \<Rightarrow> (error \<Rightarrow> bool \<Rightarrow> error) \<Rightarrow> (error \<Rightarrow> bool) \<Rightarrow> Time
     \<Rightarrow> (error \<Rightarrow> RetryReason option) \<Rightarrow> retriableRequestPs \<Rightarrow> 'res attempt list
     \<Rightarrow> ((failure + 'res) \<times> retriableRequestPs) option" where
  "handleRetriableRequest ControlledBackoff mapPsErrorToGocbError isErrTimeout createdTime
     retryReasonFn req [] = None"
| "handleRetriableRequest ControlledBackoff mapPsErrorToGocbError isErrTimeout createdTime
     retryReasonFn req (turn # rest) =
     (case sendResult turn of
        Inr res \<Rightarrow> Some (Inr res, req)
      | Inl err \<Rightarrow>
          (let gocbErr = mapPsErrorToGocbError err (idempotent req)
           in if isErrTimeout gocbErr then
                Some (Inl (ErrTimeoutError
                  \<lparr>InnerError = err,
                   OperationID = operation req,
                   Opaque = identifier req,
                   TimeObserved = Time_Sub (failureClock turn) createdTime,
                   RetryReasons = reasons req,
                   RetryAttempts = attempts req\<rparr>), req)
              else
                (case retryReasonFn gocbErr of
                   None \<Rightarrow> Some (Inl (ErrMapped gocbErr), req)
                 | Some retryReason \<Rightarrow>
                     (case retryOrchMaybeRetry ControlledBackoff (decisionClock turn) req
                             retryReason of
                        ((False, retryWait), req') \<Rightarrow> Some (Inl (ErrMapped gocbErr), req')
                      | ((True, retryWait), req') \<Rightarrow>
                          (case waitOutcome turn of
                             TimerFired \<Rightarrow>
                               handleRetriableRequest ControlledBackoff mapPsErrorToGocbError
                                 isErrTimeout createdTime retryReasonFn req' rest
                           | ContextDone ctxErr \<Rightarrow>
                               if ctxErr = DeadlineExceeded then
                                 Some (Inl (ErrTimeoutError
                                   \<lparr>InnerError = ErrUnambiguousTimeout,
                                    OperationID = operation req',
                                    Opaque = identifier req',
                                    TimeObserved = Time_Sub (failureClock turn) createdTime,
                                    RetryReasons = reasons req',
                                    RetryAttempts = attempts req'\<rparr>), req')
                               else Some (Inl (ErrGenericError ErrRequestCanceled), req'))))))"

section \<open>Bulk operations: data (the protostellar bulk provider)\<close>

text \<open>
  The eleven kinds of bulk operation, each with the fields its handler reads: \<^verbatim>\<open>Expiry\<close> (a
  duration), \<^verbatim>\<open>Cas\<close>, \<^verbatim>\<open>Value\<close> (any value for the codec, a string for append and
  prepend), \<^verbatim>\<open>Delta\<close> and \<^verbatim>\<open>Initial\<close> (both int64). The Go types are structs told apart by a
  type switch; the fields they all have are in the record \<open>BulkOp\<close> below. An entry of a
  batch is an operation of one of these kinds: a nil entry, for which the type switch has
  no case, is not a value of the type.
\<close>

type_synonym bytes = "8 word list"

datatype 'v op =
    GetOp
  | GetAndTouchOp Duration
  | TouchOp Duration
  | RemoveOp uint64
  | UpsertOp 'v Duration
  | InsertOp 'v Duration
  | ReplaceOp 'v Duration uint64
  | AppendOp string
  | PrependOp string
  | IncrementOp "64 word" "64 word" Duration
  | DecrementOp "64 word" "64 word" Duration

text \<open>\<^verbatim>\<open>Transcoder.Encode\<close>: the bytes and the flags, or an error.\<close>

type_synonym 'v Transcoder = "'v \<Rightarrow> error + bytes \<times> uint32"

text \<open>The mutation tokens of the wire protocol and of the library are not looked into.\<close>

typedecl psMutationToken

typedecl MutationToken

text \<open>
  The three result structs: \<^verbatim>\<open>GetResult\<close> (cas, transcoder, contents, flags),
  \<^verbatim>\<open>MutationResult\<close> (mt, cas) and \<^verbatim>\<open>CounterResult\<close> (mt, cas, content).
\<close>

datatype 'v result =
    GetResult uint64 "'v Transcoder" bytes uint32
  | MutationResult "MutationToken option" uint64
  | CounterResult "MutationToken option" uint64 uint64

text \<open>
  An operation as a worker holds it: its kind and inputs, the document id, the result slot,
  the error slot, and the finish function, which ends the span of the operation and records
  its latency under the name kept here (\<open>None\<close> while no handler has set it).
\<close>

record 'v BulkOp =
  op :: "'v op"
  ID :: string
  Result :: "'v result option"
  Err :: "error option"
  finishFn :: "string option"

text \<open>
  The responses of the service. \<^verbatim>\<open>GetResponse\<close> and \<^verbatim>\<open>GetAndTouchResponse\<close> have the fields
  of \<open>GetResponse\<close>, the responses to the seven mutations those of \<open>MutateResponse\<close>, and the
  two counter responses those of \<open>CounterResponse\<close>, whose \<^verbatim>\<open>Content\<close> is the int64 named
  \<open>CounterContent\<close> here. The content of a read is one of two variants, or absent.
\<close>

datatype content = ContentUncompressed bytes | ContentCompressed bytes

record kvResponse =
  Cas :: uint64

record GetResponse = kvResponse +
  Content :: "content option"
  ContentFlags :: uint32

record MutateResponse = kvResponse +
  MutationToken :: "psMutationToken option"

record CounterResponse = MutateResponse +
  CounterContent :: "64 word"

text \<open>
  The requests. Every request names the document; the other fields of a request are the
  further arguments of the client's function, in the order of the handler's source text.
\<close>

record kvRequest =
  Key :: string
  CollectionName :: string
  ScopeName :: string
  BucketName :: string

text \<open>
  \<^verbatim>\<open>kv_v1.KvServiceClient\<close> as one call sees it: the answer of the service to the request,
  an error or the response (the answer depends on the server and on the context, which are
  outside the model). The further arguments are: for get-and-touch and touch the expiry in
  seconds; for remove the optional cas; for upsert and insert the content, the content
  flags and the optional expiry; for replace the content, the flags, the optional cas and
  the optional expiry; for append and prepend the content; for the counters the delta, the
  optional expiry and the initial value.
\<close>

record KvServiceClient =
  client_Get :: "kvRequest \<Rightarrow> error + GetResponse"
  client_GetAndTouch :: "kvRequest \<Rightarrow> uint32 \<Rightarrow> error + GetResponse"
  client_Touch :: "kvRequest \<Rightarrow> uint32 \<Rightarrow> error + MutateResponse"
  client_Remove :: "kvRequest \<Rightarrow> uint64 option \<Rightarrow> error + MutateResponse"
  client_Upsert :: "kvRequest \<Rightarrow> bytes \<Rightarrow> uint32 \<Rightarrow> uint32 option \<Rightarrow> error + MutateResponse"
  client_Insert :: "kvRequest \<Rightarrow> bytes \<Rightarrow> uint32 \<Rightarrow> uint32 option \<Rightarrow> error + MutateResponse"
  client_Replace ::
    "kvRequest \<Rightarrow> bytes \<Rightarrow> uint32 \<Rightarrow> uint64 option \<Rightarrow> uint32 option \<Rightarrow> error + MutateResponse"
  client_Append :: "kvRequest \<Rightarrow> bytes \<Rightarrow> error + MutateResponse"
  client_Prepend :: "kvRequest \<Rightarrow> bytes \<Rightarrow> error + MutateResponse"
  client_Increment ::
    "kvRequest \<Rightarrow> uint64 \<Rightarrow> uint32 option \<Rightarrow> 64 word \<Rightarrow> error + CounterResponse"
  client_Decrement ::
    "kvRequest \<Rightarrow> uint64 \<Rightarrow> uint32 option \<Rightarrow> 64 word \<Rightarrow> error + CounterResponse"

text \<open>
  Functions of the library that the handlers call and whose code is elsewhere: the error
  mapper \<^verbatim>\<open>mapPsErrorToGocbError(err, idempotent)\<close>, the conversion of mutation tokens
  \<^verbatim>\<open>psMutToGoCbMut\<close>, and \<open>expirySecs\<close> for \<^verbatim>\<open>uint32(d.Seconds())\<close>, a conversion through
  floating point.
\<close>

record lib =
  mapPsErrorToGocbError :: "error \<Rightarrow> bool \<Rightarrow> error"
  psMutToGoCbMut :: "psMutationToken option \<Rightarrow> MutationToken option"
  expirySecs :: "Duration \<Rightarrow> uint32"

text \<open>
  What the handlers read of a \<^verbatim>\<open>Collection\<close>: its names (\<^verbatim>\<open>c.name()\<close>, \<^verbatim>\<open>c.ScopeName()\<close>,
  \<^verbatim>\<open>c.bucketName()\<close>), \<^verbatim>\<open>c.timeoutsConfig.KVTimeout\<close> and \<^verbatim>\<open>c.transcoder\<close>.
\<close>

record 'v Collection =
  name :: string
  scopeName :: string
  bucketName :: string
  KVTimeout :: Duration
  transcoder :: "'v Transcoder"

text \<open>
  What a handler does that others see: the items it sends on the signal channel, in order,
  and the warnings it logs.
\<close>

record 'v handled =
  signalled :: "'v BulkOp list"
  warnings :: "string list"

definition compressedWarning :: string where
  "compressedWarning =
     ''couchbase2 does not currently support compressed content, passing through compressed value''"

section \<open>Bulk operations: the handlers\<close>

text \<open>
  Each handler first sets the finish function of the item, builds its request, calls the
  service and then sends the item on the signal channel, once on every path: with the error
  slot set when the call (or, for the three kinds that encode a value, the codec) failed,
  with the result slot set otherwise. The spans and the clock reading for the meter are
  left out; the name the meter records under is what \<open>finishFn\<close> keeps.
\<close>

text \<open>
  The type switch on the content of a read: the bytes of either variant as they are, with
  a warning for the compressed one; a content that is neither leaves the nil slice.
\<close>

fun contentBytes :: "content option \<Rightarrow> bytes \<times> string list" where
  "contentBytes (Some (ContentUncompressed b)) = (b, [])"
| "contentBytes (Some (ContentCompressed b)) = (b, [compressedWarning])"
| "contentBytes None = ([], [])"

text \<open>
  The document a request names: every handler fills these four fields of its request in the
  same way.
\<close>

definition docRequest :: "'v Collection \<Rightarrow> 'v BulkOp \<Rightarrow> kvRequest" where
  "docRequest c item =
     \<lparr>Key = ID item, CollectionName = name c, ScopeName = scopeName c,
      BucketName = bucketName c\<rparr>"

definition Get ::
  "lib \<Rightarrow> KvServiceClient \<Rightarrow> 'v Collection \<Rightarrow> 'v Transcoder \<Rightarrow> 'v BulkOp \<Rightarrow> 'v handled" where
  "Get l client c tc item0 =
     (let item = item0\<lparr>finishFn := Some ''get''\<rparr>;
          request = docRequest c item
      in case client_Get client request of
           Inl err \<Rightarrow>
             \<lparr>signalled = [item\<lparr>Err := Some (mapPsErrorToGocbError l err True)\<rparr>],
              warnings = []\<rparr>
         | Inr res \<Rightarrow>
             (let (content, logged) = contentBytes (Content res)
              in \<lparr>signalled =
                    [item\<lparr>Result := Some (GetResult (Cas res) tc content (ContentFlags res))\<rparr>],
                  warnings = logged\<rparr>))"

definition GetAndTouch ::
  "lib \<Rightarrow> KvServiceClient \<Rightarrow> 'v Collection \<Rightarrow> 'v Transcoder \<Rightarrow> 'v BulkOp \<Rightarrow> Duration
     \<Rightarrow> 'v handled" where
  "GetAndTouch l client c tc item0 Expiry =
     (let item = item0\<lparr>finishFn := Some ''get_and_touch''\<rparr>;
          reqExpiry = expirySecs l Expiry;
          request = docRequest c item
      in case client_GetAndTouch client request reqExpiry of
           Inl err \<Rightarrow>
             \<lparr>signalled = [item\<lparr>Err := Some (mapPsErrorToGocbError l err False)\<rparr>],
              warnings = []\<rparr>
         | Inr res \<Rightarrow>
             (let (content, logged) = contentBytes (Content res)
              in \<lparr>signalled =
                    [item\<lparr>Result := Some (GetResult (Cas res) tc content (ContentFlags res))\<rparr>],
                  warnings = logged\<rparr>))"

definition Touch ::
  "lib \<Rightarrow> KvServiceClient \<Rightarrow> 'v Collection \<Rightarrow> 'v BulkOp \<Rightarrow> Duration \<Rightarrow> 'v handled" where
  "Touch l client c item0 Expiry =
     (let item = item0\<lparr>finishFn := Some ''touch''\<rparr>;
          request = docRequest c item
      in case client_Touch client request (expirySecs l Expiry) of
           Inl err \<Rightarrow>
             \<lparr>signalled = [item\<lparr>Err := Some (mapPsErrorToGocbError l err False)\<rparr>],
              warnings = []\<rparr>
         | Inr res \<Rightarrow>
             (let mt = psMutToGoCbMut l (MutationToken res);
                  outCas = Cas res
              in \<lparr>signalled = [item\<lparr>Result := Some (MutationResult mt outCas)\<rparr>],
                  warnings = []\<rparr>))"

definition Remove ::
  "lib \<Rightarrow> KvServiceClient \<Rightarrow> 'v Collection \<Rightarrow> 'v BulkOp \<Rightarrow> uint64 \<Rightarrow> 'v handled" where
  "Remove l client c item0 itemCas =
     (let item = item0\<lparr>finishFn := Some ''remove''\<rparr>;
          cas = (if 0 < itemCas then Some itemCas else None);
          request = docRequest c item
      in case client_Remove client request cas of
           Inl err \<Rightarrow>
             \<lparr>signalled = [item\<lparr>Err := Some (mapPsErrorToGocbError l err False)\<rparr>],
              warnings = []\<rparr>
         | Inr res \<Rightarrow>
             (let mt = psMutToGoCbMut l (MutationToken res);
                  outCas = Cas res
              in \<lparr>signalled = [item\<lparr>Result := Some (MutationResult mt outCas)\<rparr>],
                  warnings = []\<rparr>))"

definition Upsert ::
  "lib \<Rightarrow> KvServiceClient \<Rightarrow> 'v Collection \<Rightarrow> 'v Transcoder \<Rightarrow> 'v BulkOp \<Rightarrow> 'v \<Rightarrow> Duration
     \<Rightarrow> 'v handled" where
  "Upsert l client c tc item0 Value Expiry =
     (let item = item0\<lparr>finishFn := Some ''upsert''\<rparr>
      in case tc Value of
           Inl err \<Rightarrow> \<lparr>signalled = [item\<lparr>Err := Some err\<rparr>], warnings = []\<rparr>
         | Inr (bytes, flags) \<Rightarrow>
             (let expiry = (if 0 <s Expiry then Some (expirySecs l Expiry) else None);
                  request = docRequest c item
              in case client_Upsert client request bytes flags expiry of
                   Inl err \<Rightarrow>
                     \<lparr>signalled = [item\<lparr>Err := Some (mapPsErrorToGocbError l err False)\<rparr>],
                      warnings = []\<rparr>
                 | Inr res \<Rightarrow>
                     (let mt = psMutToGoCbMut l (MutationToken res)
                      in \<lparr>signalled = [item\<lparr>Result := Some (MutationResult mt (Cas res))\<rparr>],
                          warnings = []\<rparr>)))"

definition Insert ::
  "lib \<Rightarrow> KvServiceClient \<Rightarrow> 'v Collection \<Rightarrow> 'v Transcoder \<Rightarrow> 'v BulkOp \<Rightarrow> 'v \<Rightarrow> Duration
     \<Rightarrow> 'v handled" where
  "Insert l client c tc item0 Value Expiry =
     (let item = item0\<lparr>finishFn := Some ''insert''\<rparr>
      in case tc Value of
           Inl err \<Rightarrow> \<lparr>signalled = [item\<lparr>Err := Some err\<rparr>], warnings = []\<rparr>
         | Inr (bytes, flags) \<Rightarrow>
             (let expiry = (if 0 <s Expiry then Some (expirySecs l Expiry) else None);
                  request = docRequest c item
              in case client_Insert client request bytes flags expiry of
                   Inl err \<Rightarrow>
                     \<lparr>signalled = [item\<lparr>Err := Some (mapPsErrorToGocbError l err False)\<rparr>],
                      warnings = []\<rparr>
                 | Inr res \<Rightarrow>
                     (let mt = psMutToGoCbMut l (MutationToken res)
                      in \<lparr>signalled = [item\<lparr>Result := Some (MutationResult mt (Cas res))\<rparr>],
                          warnings = []\<rparr>)))"

definition Replace ::
  "lib \<Rightarrow> KvServiceClient \<Rightarrow> 'v Collection \<Rightarrow> 'v Transcoder \<Rightarrow> 'v BulkOp \<Rightarrow> 'v \<Rightarrow> Duration
     \<Rightarrow> uint64 \<Rightarrow> 'v handled" where
  "Replace l client c tc item0 Value Expiry itemCas =
     (let item = item0\<lparr>finishFn := Some ''replace''\<rparr>
      in case tc Value of
           Inl err \<Rightarrow> \<lparr>signalled = [item\<lparr>Err := Some err\<rparr>], warnings = []\<rparr>
         | Inr (bytes, flags) \<Rightarrow>
             (let cas = (if 0 < itemCas then Some itemCas else None);
                  expiry = (if 0 <s Expiry then Some (expirySecs l Expiry) else None);
                  request = docRequest c item
              in case client_Replace client request bytes flags cas expiry of
                   Inl err \<Rightarrow>
                     \<lparr>signalled = [item\<lparr>Err := Some (mapPsErrorToGocbError l err False)\<rparr>],
                      warnings = []\<rparr>
                 | Inr res \<Rightarrow>
                     (let mt = psMutToGoCbMut l (MutationToken res)
                      in \<lparr>signalled = [item\<lparr>Result := Some (MutationResult mt (Cas res))\<rparr>],
                          warnings = []\<rparr>)))"

text \<open>\<^verbatim>\<open>[]byte(s)\<close>: the bytes of a string.\<close>

definition bytesOf :: "string \<Rightarrow> bytes" where
  "bytesOf s = map (\<lambda>ch. word_of_nat (of_char ch)) s"

definition Append ::
  "lib \<Rightarrow> KvServiceClient \<Rightarrow> 'v Collection \<Rightarrow> 'v BulkOp \<Rightarrow> string \<Rightarrow> 'v handled" where
  "Append l client c item0 Value =
     (let item = item0\<lparr>finishFn := Some ''append''\<rparr>;
          request = docRequest c item
      in case client_Append client request (bytesOf Value) of
           Inl err \<Rightarrow>
             \<lparr>signalled = [item\<lparr>Err := Some (mapPsErrorToGocbError l err False)\<rparr>],
              warnings = []\<rparr>
         | Inr res \<Rightarrow>
             (let mt = psMutToGoCbMut l (MutationToken res)
              in \<lparr>signalled = [item\<lparr>Result := Some (MutationResult mt (Cas res))\<rparr>],
                  warnings = []\<rparr>))"

definition Prepend ::
  "lib \<Rightarrow> KvServiceClient \<Rightarrow> 'v Collection \<Rightarrow> 'v BulkOp \<Rightarrow> string \<Rightarrow> 'v handled" where
  "Prepend l client c item0 Value =
     (let item = item0\<lparr>finishFn := Some ''prepend''\<rparr>;
          request = docRequest c item
      in case client_Prepend client request (bytesOf Value) of
           Inl err \<Rightarrow>
             \<lparr>signalled = [item\<lparr>Err := Some (mapPsErrorToGocbError l err False)\<rparr>],
              warnings = []\<rparr>
         | Inr res \<Rightarrow>
             (let mt = psMutToGoCbMut l (MutationToken res)
              in \<lparr>signalled = [item\<lparr>Result := Some (MutationResult mt (Cas res))\<rparr>],
                  warnings = []\<rparr>))"

definition Increment ::
  "lib \<Rightarrow> KvServiceClient \<Rightarrow> 'v Collection \<Rightarrow> 'v BulkOp \<Rightarrow> 64 word \<Rightarrow> 64 word \<Rightarrow> Duration
     \<Rightarrow> 'v handled" where
  "Increment l client c item0 Delta Initial Expiry =
     (let item = item0\<lparr>finishFn := Some ''increment''\<rparr>;
          expiry = (if 0 <s Expiry then Some (expirySecs l Expiry) else None);
          request = docRequest c item
      in case client_Increment client request Delta expiry Initial of
           Inl err \<Rightarrow>
             \<lparr>signalled = [item\<lparr>Err := Some (mapPsErrorToGocbError l err False)\<rparr>],
              warnings = []\<rparr>
         | Inr res \<Rightarrow>
             (let mt = psMutToGoCbMut l (MutationToken res)
              in \<lparr>signalled =
                    [item\<lparr>Result := Some (CounterResult mt (Cas res) (CounterContent res))\<rparr>],
                  warnings = []\<rparr>))"

definition Decrement ::
  "lib \<Rightarrow> KvServiceClient \<Rightarrow> 'v Collection \<Rightarrow> 'v BulkOp \<Rightarrow> 64 word \<Rightarrow> 64 word \<Rightarrow> Duration
     \<Rightarrow> 'v handled" where
  "Decrement l client c item0 Delta Initial Expiry =
     (let item = item0\<lparr>finishFn := Some ''decrement''\<rparr>;
          expiry = (if 0 <s Expiry then Some (expirySecs l Expiry) else None);
          request = docRequest c item
      in case client_Decrement client request Delta expiry Initial of
           Inl err \<Rightarrow>
             \<lparr>signalled = [item\<lparr>Err := Some (mapPsErrorToGocbError l err False)\<rparr>],
              warnings = []\<rparr>
         | Inr res \<Rightarrow>
             (let mt = psMutToGoCbMut l (MutationToken res)
              in \<lparr>signalled =
                    [item\<lparr>Result := Some (CounterResult mt (Cas res) (CounterContent res))\<rparr>],
                  warnings = []\<rparr>))"

text \<open>
  The body of \<^verbatim>\<open>worker\<close>'s loop for one work item: the type switch to the handler of the
  item's kind.
\<close>

definition worker ::
  "lib \<Rightarrow> KvServiceClient \<Rightarrow> 'v Collection \<Rightarrow> 'v Transcoder \<Rightarrow> 'v BulkOp \<Rightarrow> 'v handled" where
  "worker l client c tc i =
     (case op i of
        GetOp \<Rightarrow> Get l client c tc i
      | GetAndTouchOp Expiry \<Rightarrow> GetAndTouch l client c tc i Expiry
      | TouchOp Expiry \<Rightarrow> Touch l client c i Expiry
      | RemoveOp itemCas \<Rightarrow> Remove l client c i itemCas
      | UpsertOp Value Expiry \<Rightarrow> Upsert l client c tc i Value Expiry
      | InsertOp Value Expiry \<Rightarrow> Insert l client c tc i Value Expiry
      | ReplaceOp Value Expiry itemCas \<Rightarrow> Replace l client c tc i Value Expiry itemCas
      | AppendOp Value \<Rightarrow> Append l client c i Value
      | PrependOp Value \<Rightarrow> Prepend l client c i Value
      | IncrementOp Delta Initial Expiry \<Rightarrow> Increment l client c i Delta Initial Expiry
      | DecrementOp Delta Initial Expiry \<Rightarrow> Decrement l client c i Delta Initial Expiry)"

section \<open>Bulk operations: \<^verbatim>\<open>Do\<close> and the workers\<close>

text \<open>
  The options of a batch that \<^verbatim>\<open>Do\<close> reads here: the timeout (zero when none is given) and
  the transcoder (nil when none is given). The parent span and the parent context are
  left out.
\<close>

record 'v BulkOpOptions =
  Timeout :: Duration
  Transcoder :: "'v Transcoder option"

text \<open>The number of workers \<^verbatim>\<open>initWorkers\<close> starts.\<close>

definition workerCount :: nat where
  "workerCount = 10000"

text \<open>
  \<^verbatim>\<open>Do\<close> runs beside the workers, so a call of \<^verbatim>\<open>Do\<close> is a state and the moves that change
  it. The state holds what \<^verbatim>\<open>Do\<close> fixes before its first loop: \<open>ctxTimeout\<close>, the duration
  it gives to \<^verbatim>\<open>context.WithTimeout\<close>, \<open>useTranscoder\<close>, and \<open>capacity\<close>, the capacity of the
  signal channel; and what changes: the operations the first loop has still to push on the
  worker channel (each with its position in the batch), the operations workers hold whose
  handler has not sent its signal, the content of the signal channel, the number of turns
  left in the second loop, the items whose \<^verbatim>\<open>finish()\<close> the second loop has called, the
  warnings logged, and the value \<^verbatim>\<open>Do\<close> returned once it has (\<open>Some None\<close> is a nil error).
  The state is that of one call: other calls of \<^verbatim>\<open>Do\<close> that share the workers are outside it.
\<close>

record 'v DoState =
  ctxTimeout :: Duration
  useTranscoder :: "'v Transcoder"
  capacity :: nat
  toDispatch :: "(nat \<times> 'v BulkOp) list"
  inWorkers :: "(nat \<times> 'v BulkOp) list"
  signal :: "'v BulkOp list"
  awaiting :: nat
  finished :: "'v BulkOp list"
  logged :: "string list"
  returned :: "error option option"


text \<open>
  The moves. \<open>Dispatch\<close>: the first loop pushes its next operation on the worker channel,
  which has no buffer, so a worker must be free to take it. \<open>Work k\<close>: the worker holding
  the \<open>k\<close>-th operation in flight runs its handler to the end, the send on the signal
  channel included, which needs room in the channel. \<open>Drain\<close>: a turn of the second loop,
  which starts when the first has ended, takes the oldest item off the signal channel and
  calls its \<^verbatim>\<open>finish()\<close>. \<open>Return\<close>: after the last turn \<^verbatim>\<open>Do\<close> returns nil. A move that
  cannot be made (the goroutine would block) gives \<open>None\<close>. The service is given as the
  client each call sees, by the position of the operation in the batch.
\<close>

datatype move = Dispatch | Work nat | Drain | Return

fun exec ::
  "lib \<Rightarrow> (nat \<Rightarrow> KvServiceClient) \<Rightarrow> 'v Collection \<Rightarrow> move \<Rightarrow> 'v DoState
     \<Rightarrow> 'v DoState option" where
  "exec l service c Dispatch s =
     (case toDispatch s of
        [] \<Rightarrow> None
      | x # rest \<Rightarrow>
          if length (inWorkers s) < workerCount
          then Some (s\<lparr>toDispatch := rest, inWorkers := inWorkers s @ [x]\<rparr>)
          else None)"
| "exec l service c (Work k) s =
     (if k < length (inWorkers s) then
        (let (i, item) = inWorkers s ! k;
             h = worker l (service i) c (useTranscoder s) item
         in if length (signal s) + length (signalled h) \<le> capacity s
            then Some (s\<lparr>inWorkers := take k (inWorkers s) @ drop (Suc k) (inWorkers s),
                         signal := signal s @ signalled h,
                         logged := logged s @ warnings h\<rparr>)
            else None)
      else None)"
| "exec l service c Drain s =
     (if toDispatch s = [] \<and> returned s = None then
        (case (awaiting s, signal s) of
           (Suc n, item # rest) \<Rightarrow>
             Some (s\<lparr>signal := rest, awaiting := n, finished := finished s @ [item]\<rparr>)
         | _ \<Rightarrow> None)
      else None)"
| "exec l service c Return s =
     (if toDispatch s = [] \<and> awaiting s = 0 \<and> returned s = None
      then Some (s\<lparr>returned := Some None\<rparr>)
      else None)"

text \<open>A run: moves made one after another, \<open>None\<close> if one of them cannot be made.\<close>

fun run ::
  "lib \<Rightarrow> (nat \<Rightarrow> KvServiceClient) \<Rightarrow> 'v Collection \<Rightarrow> move list \<Rightarrow> 'v DoState
     \<Rightarrow> 'v DoState option" where
  "run l service c [] s = Some s"
| "run l service c (m # ms) s =
     (case exec l service c m s of
        None \<Rightarrow> None
      | Some s' \<Rightarrow> run l service c ms s')"




section \<open>Sample values\<close>

text \<open>
  Values to run the definitions on: library functions that keep the error as it is, give no
  token and zero seconds; a service that answers every call (a read with compressed
  content); a service whose every call fails with a given error; a codec that fails on the
  value \<open>''bad''\<close>; and a collection with the default timeout of 2.5 seconds.
\<close>

definition sampleLib :: lib where
  "sampleLib =
     \<lparr>mapPsErrorToGocbError = (\<lambda>err idem. err), psMutToGoCbMut = (\<lambda>t. None),
      expirySecs = (\<lambda>d. 0)\<rparr>"

definition sampleClient :: KvServiceClient where
  "sampleClient =
     \<lparr>client_Get = (\<lambda>r. Inr \<lparr>Cas = 7, Content = Some (ContentCompressed [31, 139, 8]),
                               ContentFlags = 5\<rparr>),
      client_GetAndTouch = (\<lambda>r e. Inr \<lparr>Cas = 7, Content = Some (ContentCompressed [31, 139, 8]),
                               ContentFlags = 5\<rparr>),
      client_Touch = (\<lambda>r e. Inr \<lparr>Cas = 8, MutationToken = None\<rparr>),
      client_Remove = (\<lambda>r cas. Inr \<lparr>Cas = 8, MutationToken = None\<rparr>),
      client_Upsert = (\<lambda>r b f e. Inr \<lparr>Cas = 8, MutationToken = None\<rparr>),
      client_Insert = (\<lambda>r b f e. Inr \<lparr>Cas = 8, MutationToken = None\<rparr>),
      client_Replace = (\<lambda>r b f cas e. Inr \<lparr>Cas = 8, MutationToken = None\<rparr>),
      client_Append = (\<lambda>r b. Inr \<lparr>Cas = 8, MutationToken = None\<rparr>),
      client_Prepend = (\<lambda>r b. Inr \<lparr>Cas = 8, MutationToken = None\<rparr>),
      client_Increment = (\<lambda>r d e i. Inr \<lparr>Cas = 9, MutationToken = None, CounterContent = 1\<rparr>),
      client_Decrement = (\<lambda>r d e i. Inr \<lparr>Cas = 9, MutationToken = None, CounterContent = 1\<rparr>)\<rparr>"

definition failingClient :: "error \<Rightarrow> KvServiceClient" where
  "failingClient err =
     \<lparr>client_Get = (\<lambda>r. Inl err),
      client_GetAndTouch = (\<lambda>r e. Inl err),
      client_Touch = (\<lambda>r e. Inl err),
      client_Remove = (\<lambda>r cas. Inl err),
      client_Upsert = (\<lambda>r b f e. Inl err),
      client_Insert = (\<lambda>r b f e. Inl err),
      client_Replace = (\<lambda>r b f cas e. Inl err),
      client_Append = (\<lambda>r b. Inl err),
      client_Prepend = (\<lambda>r b. Inl err),
      client_Increment = (\<lambda>r d e i. Inl err),
      client_Decrement = (\<lambda>r d e i. Inl err)\<rparr>"

definition sampleTranscoder :: "string Transcoder" where
  "sampleTranscoder v = (if v = ''bad'' then Inl (OtherError ''encode'') else Inr ([1], 0))"

definition sampleCollection :: "string Collection" where
  "sampleCollection =
     \<lparr>name = ''c'', scopeName = ''s'', bucketName = ''b'', KVTimeout = 2500000000,
      transcoder = sampleTranscoder\<rparr>"

definition sampleOp :: "string op \<Rightarrow> string \<Rightarrow> string BulkOp" where
  "sampleOp kind key = \<lparr>op = kind, ID = key, Result = None, Err = None, finishFn = None\<rparr>"



text \<open>
  A request that has been retried twice, with a strategy that always answers one
  microsecond; a classifier that knows one retry reason; and a turn of the retry loop whose
  send fails.
\<close>

definition sampleRequest :: retriableRequestPs where
  "sampleRequest =
     \<lparr>reasons = [\<lparr>AllowsNonIdempotentRetry = True, AlwaysRetry = False,
                   Description = ''SERVICE_NOT_AVAILABLE''\<rparr>],
      attempts = 2, operation = ''get'', identifier = ''ab12cd'', idempotent = True,
      strategy = Some (\<lambda>req reason. Some (WithDurationRetryAction 1000))\<rparr>"

definition sampleReasonFn :: "error \<Rightarrow> RetryReason option" where
  "sampleReasonFn e =
     (if e = OtherError ''locked''
      then Some \<lparr>AllowsNonIdempotentRetry = False, AlwaysRetry = False,
                 Description = ''KV_LOCKED''\<rparr>
      else None)"

definition sampleTurn :: "error \<Rightarrow> wait \<Rightarrow> nat attempt" where
  "sampleTurn err w =
     \<lparr>sendResult = Inl err, decisionClock = 800, failureClock = 900, waitOutcome = w\<rparr>"

section \<open>Recording an attempt\<close>

lemma found_iff: "found rs reason \<longleftrightarrow> reason \<in> set rs"
  by (induction rs) auto

lemma attempts_recordRetryAttempt:
  "attempts (recordRetryAttempt w reason) = attempts w + 1"
  by (simp add: recordRetryAttempt_def Let_def)

lemma reasons_recordRetryAttempt:
  "reasons (recordRetryAttempt w reason) =
     (if reason \<in> set (reasons w) then reasons w else reasons w @ [reason])"
  by (simp add: recordRetryAttempt_def Let_def found_iff)

lemma retry_true_records:
  "retryOrchMaybeRetry cb now req reason = ((True, wake), req') \<Longrightarrow>
     req' = recordRetryAttempt req reason"
  by (auto simp: retryOrchMaybeRetry_def Let_def split: if_splits option.splits)

section \<open>The retry decision\<close>

text \<open>
  C1. For a reason whose \<^verbatim>\<open>AlwaysRetry()\<close> is true, \<^verbatim>\<open>retryOrchMaybeRetry\<close> answers retry, for
  every request: whatever its strategy (nil included), its idempotency flag and its attempt
  counter. The wake time is the clock reading plus \<^verbatim>\<open>ControlledBackoff\<close> of the attempt
  counter as it was before the call, and the attempt is recorded: the counter is one more
  and the reason is among the request's reasons.
\<close>

theorem C1_always_retry:
  "AlwaysRetry reason \<Longrightarrow>
     retryOrchMaybeRetry ControlledBackoff now req reason =
       ((True, Time_Add now (ControlledBackoff (attempts req))), recordRetryAttempt req reason)
     \<and> attempts (recordRetryAttempt req reason) = attempts req + 1
     \<and> reason \<in> set (reasons (recordRetryAttempt req reason))"
  by (simp add: retryOrchMaybeRetry_def Let_def attempts_recordRetryAttempt
      reasons_recordRetryAttempt)

text \<open>
  An always-retry reason on a non-idempotent request with no strategy and three earlier
  attempts, the clock at 5000ns and a backoff of 100ms for attempt 3.
\<close>

theorem C1_always_retry_witness:
  "AlwaysRetry \<lparr>AllowsNonIdempotentRetry = True, AlwaysRetry = True,
       Description = ''KV_COLLECTION_OUTDATED''\<rparr>
   \<and> retryOrchMaybeRetry (\<lambda>n. if n = 3 then 100000000 else 1000000000) 5000
       \<lparr>reasons = [], attempts = 3, operation = ''get'', identifier = ''ab12cd'',
        idempotent = False, strategy = None\<rparr>
       \<lparr>AllowsNonIdempotentRetry = True, AlwaysRetry = True,
        Description = ''KV_COLLECTION_OUTDATED''\<rparr>
     = ((True, 100005000),
        \<lparr>reasons = [\<lparr>AllowsNonIdempotentRetry = True, AlwaysRetry = True,
            Description = ''KV_COLLECTION_OUTDATED''\<rparr>], attempts = 4, operation = ''get'',
         identifier = ''ab12cd'', idempotent = False, strategy = None\<rparr>)"
  using C1_always_retry [of "\<lparr>AllowsNonIdempotentRetry = True, AlwaysRetry = True,
       Description = ''KV_COLLECTION_OUTDATED''\<rparr>"
       "\<lambda>n. if n = 3 then 100000000 else 1000000000" 5000
       "\<lparr>reasons = [], attempts = 3, operation = ''get'', identifier = ''ab12cd'',
        idempotent = False, strategy = None\<rparr>"]
  by (simp add: recordRetryAttempt_def Let_def Time_Add_def)

text \<open>
  C2, as the code has it. For a reason whose \<^verbatim>\<open>AlwaysRetry()\<close> is false, the answer is retry
  exactly when the request has a strategy whose \<^verbatim>\<open>RetryAfter\<close> returns a non-nil action with
  a duration other than zero. A nil strategy, a nil action, the no-retry action and a zero
  duration all answer no retry; a positive duration answers retry, and so does a negative
  one, since the code compares the duration with zero only.
\<close>

theorem C2_strategy_decides:
  "\<not> AlwaysRetry reason \<Longrightarrow>
     (fst (fst (retryOrchMaybeRetry ControlledBackoff now req reason)) \<longleftrightarrow>
        (\<exists>retryStrategy action. strategy req = Some retryStrategy
           \<and> retryStrategy (asRetryRequest req) reason = Some action
           \<and> Duration action \<noteq> 0))
     \<and> (strategy req = None \<longrightarrow>
          \<not> fst (fst (retryOrchMaybeRetry ControlledBackoff now req reason)))
     \<and> (\<forall>retryStrategy. strategy req = Some retryStrategy \<longrightarrow>
          (retryStrategy (asRetryRequest req) reason = None
           \<or> retryStrategy (asRetryRequest req) reason = Some NoRetryRetryAction
           \<or> retryStrategy (asRetryRequest req) reason = Some (WithDurationRetryAction 0) \<longrightarrow>
             \<not> fst (fst (retryOrchMaybeRetry ControlledBackoff now req reason)))
          \<and> (\<forall>d. retryStrategy (asRetryRequest req) reason = Some (WithDurationRetryAction d)
                 \<and> (0 <s d \<or> d <s 0) \<longrightarrow>
               retryOrchMaybeRetry ControlledBackoff now req reason =
                 ((True, Time_Add now d), recordRetryAttempt req reason)))"
  by (auto simp: retryOrchMaybeRetry_def Let_def split: if_splits option.splits)

text \<open>A strategy that answers 25ms, on a reason that is not always retried.\<close>

theorem C2_strategy_decides_witness:
  "\<not> AlwaysRetry \<lparr>AllowsNonIdempotentRetry = False, AlwaysRetry = False,
       Description = ''KV_LOCKED''\<rparr>
   \<and> retryOrchMaybeRetry (\<lambda>n. 1000000) 7
       \<lparr>reasons = [], attempts = 0, operation = ''get'', identifier = ''ab12cd'',
        idempotent = True,
        strategy = Some (\<lambda>req reason. Some (WithDurationRetryAction 25000000))\<rparr>
       \<lparr>AllowsNonIdempotentRetry = False, AlwaysRetry = False, Description = ''KV_LOCKED''\<rparr>
     = ((True, 25000007),
        \<lparr>reasons = [\<lparr>AllowsNonIdempotentRetry = False, AlwaysRetry = False,
            Description = ''KV_LOCKED''\<rparr>], attempts = 1, operation = ''get'',
         identifier = ''ab12cd'', idempotent = True,
         strategy = Some (\<lambda>req reason. Some (WithDurationRetryAction 25000000))\<rparr>)"
  using C2_strategy_decides [of "\<lparr>AllowsNonIdempotentRetry = False, AlwaysRetry = False,
       Description = ''KV_LOCKED''\<rparr>" "\<lambda>n. 1000000" 7
       "\<lparr>reasons = [], attempts = 0, operation = ''get'', identifier = ''ab12cd'',
        idempotent = True,
        strategy = Some (\<lambda>req reason. Some (WithDurationRetryAction 25000000))\<rparr>"]
  by (simp add: recordRetryAttempt_def Let_def Time_Add_def word_sless_alt)

text \<open>
  The claim with "positive" fails: a strategy that answers the duration -1ns makes the
  decision retry, and -1 is not a positive duration.
\<close>

theorem C2_negative_duration_counterexample:
  "fst (fst (retryOrchMaybeRetry (\<lambda>n. 1000000) 7
       \<lparr>reasons = [], attempts = 0, operation = ''get'', identifier = ''ab12cd'',
        idempotent = True,
        strategy = Some (\<lambda>req reason. Some (WithDurationRetryAction (- 1)))\<rparr>
       \<lparr>AllowsNonIdempotentRetry = False, AlwaysRetry = False, Description = ''KV_LOCKED''\<rparr>))
   \<and> \<not> AlwaysRetry \<lparr>AllowsNonIdempotentRetry = False, AlwaysRetry = False,
       Description = ''KV_LOCKED''\<rparr>
   \<and> \<not> 0 <s Duration (WithDurationRetryAction (- 1))"
  by (simp add: retryOrchMaybeRetry_def Let_def word_sless_alt)

text \<open>
  C3. \<^verbatim>\<open>BestEffortRetryStrategy.RetryAfter\<close>, for a strategy that has a calculator (as every
  strategy built by \<^verbatim>\<open>NewBestEffortRetryStrategy\<close> has): it returns the retry action carrying
  the calculator's duration for the request's attempt count exactly when the request is
  idempotent or the reason allows a non-idempotent retry. For a non-idempotent request and
  a reason that does not allow it, it returns the no-retry action, whose duration is zero
  and so not positive; this half needs no calculator.
\<close>

theorem C3_best_effort:
  "(BackoffCalculator rs = Some calc \<longrightarrow>
      RetryAfter rs req reason =
        (if Idempotent req \<or> AllowsNonIdempotentRetry reason
         then Inr (WithDurationRetryAction (calc (RetryRequest.RetryAttempts req)))
         else Inr NoRetryRetryAction))
   \<and> ((\<exists>d. RetryAfter rs req reason = Inr (WithDurationRetryAction d)) \<longrightarrow>
        Idempotent req \<or> AllowsNonIdempotentRetry reason)
   \<and> (\<not> Idempotent req \<and> \<not> AllowsNonIdempotentRetry reason \<longrightarrow>
        RetryAfter rs req reason = Inr NoRetryRetryAction
        \<and> Duration NoRetryRetryAction = 0
        \<and> \<not> 0 <s Duration NoRetryRetryAction)"
  by (auto simp: RetryAfter_def split: option.splits)

text \<open>
  The strategy built from the calculator "attempts + 1 milliseconds": an idempotent request
  with two attempts gets 3ms on a reason that forbids non-idempotent retries, and the same
  request, were it not idempotent, gets the no-retry action.
\<close>

theorem C3_best_effort_witness:
  "BackoffCalculator (NewBestEffortRetryStrategy (\<lambda>n. 1000000)
       (Some (\<lambda>n. (ucast n + 1) * 1000000))) = Some (\<lambda>n. (ucast n + 1) * 1000000)
   \<and> RetryAfter (NewBestEffortRetryStrategy (\<lambda>n. 1000000)
       (Some (\<lambda>n. (ucast n + 1) * 1000000)))
       \<lparr>RetryRequest.RetryAttempts = 2, Identifier = ''ab12cd'', Idempotent = True,
        RetryRequest.RetryReasons = []\<rparr>
       \<lparr>AllowsNonIdempotentRetry = False, AlwaysRetry = False, Description = ''KV_LOCKED''\<rparr>
     = Inr (WithDurationRetryAction 3000000)
   \<and> RetryAfter (NewBestEffortRetryStrategy (\<lambda>n. 1000000)
       (Some (\<lambda>n. (ucast n + 1) * 1000000)))
       \<lparr>RetryRequest.RetryAttempts = 2, Identifier = ''ab12cd'', Idempotent = False,
        RetryRequest.RetryReasons = []\<rparr>
       \<lparr>AllowsNonIdempotentRetry = False, AlwaysRetry = False, Description = ''KV_LOCKED''\<rparr>
     = Inr NoRetryRetryAction"
  using C3_best_effort [of "NewBestEffortRetryStrategy (\<lambda>n. 1000000)
       (Some (\<lambda>n. (ucast n + 1) * 1000000))" "\<lambda>n. (ucast n + 1) * 1000000"
       "\<lparr>RetryRequest.RetryAttempts = 2, Identifier = ''ab12cd'', Idempotent = True,
        RetryRequest.RetryReasons = []\<rparr>"
       "\<lparr>AllowsNonIdempotentRetry = False, AlwaysRetry = False, Description = ''KV_LOCKED''\<rparr>"]
    C3_best_effort [of "NewBestEffortRetryStrategy (\<lambda>n. 1000000)
       (Some (\<lambda>n. (ucast n + 1) * 1000000))" "\<lambda>n. (ucast n + 1) * 1000000"
       "\<lparr>RetryRequest.RetryAttempts = 2, Identifier = ''ab12cd'', Idempotent = False,
        RetryRequest.RetryReasons = []\<rparr>"
       "\<lparr>AllowsNonIdempotentRetry = False, AlwaysRetry = False, Description = ''KV_LOCKED''\<rparr>"]
  by (simp add: NewBestEffortRetryStrategy_def)

text \<open>
  C10. Whenever \<^verbatim>\<open>retryOrchMaybeRetry\<close> answers no retry, the request is as it was before
  the call, its attempt counter and its reasons included, and the wake time returned is the
  zero time value. (The reason is then not an always-retry one.)
\<close>

theorem C10_no_retry_frame:
  "retryOrchMaybeRetry ControlledBackoff now req reason = ((False, wake), req') \<Longrightarrow>
     req' = req \<and> attempts req' = attempts req \<and> reasons req' = reasons req
     \<and> wake = zeroTime \<and> \<not> AlwaysRetry reason"
  by (auto simp: retryOrchMaybeRetry_def Let_def split: if_splits option.splits)

text \<open>A request with no strategy and two recorded attempts, on a reason not always retried.\<close>

theorem C10_no_retry_frame_witness:
  "retryOrchMaybeRetry (\<lambda>n. 1000000) 7
       \<lparr>reasons = [\<lparr>AllowsNonIdempotentRetry = True, AlwaysRetry = False,
            Description = ''SERVICE_NOT_AVAILABLE''\<rparr>], attempts = 2, operation = ''get'',
        identifier = ''ab12cd'', idempotent = True, strategy = None\<rparr>
       \<lparr>AllowsNonIdempotentRetry = False, AlwaysRetry = False, Description = ''KV_LOCKED''\<rparr>
     = ((False, 0),
        \<lparr>reasons = [\<lparr>AllowsNonIdempotentRetry = True, AlwaysRetry = False,
            Description = ''SERVICE_NOT_AVAILABLE''\<rparr>], attempts = 2, operation = ''get'',
         identifier = ''ab12cd'', idempotent = True, strategy = None\<rparr>)
   \<and> zeroTime = 0"
proof -
  have run: "retryOrchMaybeRetry (\<lambda>n. 1000000) 7
       \<lparr>reasons = [\<lparr>AllowsNonIdempotentRetry = True, AlwaysRetry = False,
            Description = ''SERVICE_NOT_AVAILABLE''\<rparr>], attempts = 2, operation = ''get'',
        identifier = ''ab12cd'', idempotent = True, strategy = None\<rparr>
       \<lparr>AllowsNonIdempotentRetry = False, AlwaysRetry = False, Description = ''KV_LOCKED''\<rparr>
     = ((False, zeroTime),
        \<lparr>reasons = [\<lparr>AllowsNonIdempotentRetry = True, AlwaysRetry = False,
            Description = ''SERVICE_NOT_AVAILABLE''\<rparr>], attempts = 2, operation = ''get'',
         identifier = ''ab12cd'', idempotent = True, strategy = None\<rparr>)"
    by (simp add: retryOrchMaybeRetry_def)
  from C10_no_retry_frame [OF run] run show ?thesis
    by (simp add: zeroTime_def)
qed

section \<open>Consecutive retries\<close>

lemma retryDecisions_state:
  "retryDecisions cb req xs = Some req' \<Longrightarrow>
     attempts req' = attempts req + of_nat (length xs)
     \<and> set (reasons req') = set (reasons req) \<union> snd ` set xs
     \<and> (distinct (reasons req) \<longrightarrow> distinct (reasons req'))"
proof (induction xs arbitrary: req)
  case Nil
  then show ?case by simp
next
  case (Cons x xs)
  obtain now reason where x: "x = (now, reason)" by (cases x)
  obtain b wake mid where r: "retryOrchMaybeRetry cb now req reason = ((b, wake), mid)"
    by (metis surj_pair)
  from Cons.prems x r have b: "b" and rest: "retryDecisions cb mid xs = Some req'"
    by (auto split: bool.splits if_splits)
  from r b have mid: "mid = recordRetryAttempt req reason"
    by (auto dest: retry_true_records)
  from Cons.IH [OF rest] show ?case
    by (auto simp: mid x attempts_recordRetryAttempt reasons_recordRetryAttempt)
qed

lemma retryDecisions_always:
  "AlwaysRetry reason \<Longrightarrow>
     \<exists>req'. retryDecisions cb req (replicate n (now, reason)) = Some req'"
  by (induction n arbitrary: req) (simp_all add: retryOrchMaybeRetry_def Let_def)

text \<open>
  C4, as the code has it. After K consecutive decisions to retry on a new request, the
  attempt counter, an unsigned 32-bit integer, is K modulo \<open>2 ^ 32\<close>: every recorded attempt
  adds one, seen reason or not, and the counter wraps. It is K itself for every K below
  \<open>2 ^ 32\<close>. The reasons of the request are exactly the reasons of those K decisions, each
  once: their number is the number of distinct reasons.
\<close>

theorem C4_attempts_and_reasons:
  "retryDecisions ControlledBackoff (newRetriableRequestPS uuid opname idem strat) xs = Some req'
   \<Longrightarrow> attempts req' = of_nat (length xs)
     \<and> unat (attempts req') = length xs mod 2 ^ 32
     \<and> (length xs < 2 ^ 32 \<longrightarrow> unat (attempts req') = length xs)
     \<and> set (reasons req') = snd ` set xs
     \<and> distinct (reasons req')
     \<and> length (reasons req') = card (snd ` set xs)"
proof -
  assume a: "retryDecisions ControlledBackoff (newRetriableRequestPS uuid opname idem strat) xs
    = Some req'"
  from retryDecisions_state [OF a]
  have 1: "attempts req' = of_nat (length xs)"
    and 2: "set (reasons req') = snd ` set xs"
    and 3: "distinct (reasons req')"
    by (simp_all add: newRetriableRequestPS_def)
  have 4: "unat (attempts req') = length xs mod 2 ^ 32"
    by (simp add: 1 unat_of_nat)
  have 5: "length (reasons req') = card (snd ` set xs)"
    using 2 3 distinct_card by fastforce
  from 1 2 3 4 5 show ?thesis by simp
qed

text \<open>
  Three retried failures on a new request, the first two for the same reason: the counter
  is 3 and the request holds the two distinct reasons.
\<close>

theorem C4_attempts_and_reasons_witness:
  "retryDecisions (\<lambda>n. 1000000)
     (newRetriableRequestPS ''ab12cd34'' ''get'' True
        (Some (\<lambda>req reason. Some (WithDurationRetryAction 1000))))
     [(10, \<lparr>AllowsNonIdempotentRetry = True, AlwaysRetry = False,
            Description = ''SERVICE_NOT_AVAILABLE''\<rparr>),
      (20, \<lparr>AllowsNonIdempotentRetry = True, AlwaysRetry = False,
            Description = ''SERVICE_NOT_AVAILABLE''\<rparr>),
      (30, \<lparr>AllowsNonIdempotentRetry = False, AlwaysRetry = False,
            Description = ''KV_LOCKED''\<rparr>)]
   = Some \<lparr>reasons = [\<lparr>AllowsNonIdempotentRetry = True, AlwaysRetry = False,
                Description = ''SERVICE_NOT_AVAILABLE''\<rparr>,
              \<lparr>AllowsNonIdempotentRetry = False, AlwaysRetry = False,
                Description = ''KV_LOCKED''\<rparr>],
            attempts = 3, operation = ''get'', identifier = ''ab12cd'', idempotent = True,
            strategy = Some (\<lambda>req reason. Some (WithDurationRetryAction 1000))\<rparr>
   \<and> unat (3 :: uint32) = 3"
proof -
  have run: "retryDecisions (\<lambda>n. 1000000)
     (newRetriableRequestPS ''ab12cd34'' ''get'' True
        (Some (\<lambda>req reason. Some (WithDurationRetryAction 1000))))
     [(10, \<lparr>AllowsNonIdempotentRetry = True, AlwaysRetry = False,
            Description = ''SERVICE_NOT_AVAILABLE''\<rparr>),
      (20, \<lparr>AllowsNonIdempotentRetry = True, AlwaysRetry = False,
            Description = ''SERVICE_NOT_AVAILABLE''\<rparr>),
      (30, \<lparr>AllowsNonIdempotentRetry = False, AlwaysRetry = False,
            Description = ''KV_LOCKED''\<rparr>)]
   = Some \<lparr>reasons = [\<lparr>AllowsNonIdempotentRetry = True, AlwaysRetry = False,
                Description = ''SERVICE_NOT_AVAILABLE''\<rparr>,
              \<lparr>AllowsNonIdempotentRetry = False, AlwaysRetry = False,
                Description = ''KV_LOCKED''\<rparr>],
            attempts = 3, operation = ''get'', identifier = ''ab12cd'', idempotent = True,
            strategy = Some (\<lambda>req reason. Some (WithDurationRetryAction 1000))\<rparr>"
    by (simp add: retryOrchMaybeRetry_def newRetriableRequestPS_def recordRetryAttempt_def
        Let_def)
  from C4_attempts_and_reasons [OF run] run show ?thesis
    by simp
qed

text \<open>
  The claim with "equals K" fails at \<open>K = 2 ^ 32\<close>: after that many consecutive decisions to
  retry (here on an always-retry reason) the counter is 0.
\<close>

theorem C4_counter_wraps_counterexample:
  "map_option (\<lambda>w. unat (attempts w))
     (retryDecisions (\<lambda>n. 1000000)
        (newRetriableRequestPS ''ab12cd34'' ''get'' True None)
        (replicate (2 ^ 32)
           (0, \<lparr>AllowsNonIdempotentRetry = True, AlwaysRetry = True,
                Description = ''KV_COLLECTION_OUTDATED''\<rparr>)))
   = Some 0
   \<and> length (replicate (2 ^ 32)
           (0 :: Time, \<lparr>AllowsNonIdempotentRetry = True, AlwaysRetry = True,
                Description = ''KV_COLLECTION_OUTDATED''\<rparr>)) = 4294967296"
proof -
  let ?r = "\<lparr>AllowsNonIdempotentRetry = True, AlwaysRetry = True,
                Description = ''KV_COLLECTION_OUTDATED''\<rparr>"
  let ?xs = "replicate (2 ^ 32) (0 :: Time, ?r)"
  let ?req = "newRetriableRequestPS ''ab12cd34'' ''get'' True None"
  have "AlwaysRetry ?r" by simp
  from retryDecisions_always [OF this, of "\<lambda>n. 1000000" ?req "2 ^ 32" 0]
  obtain req' where run: "retryDecisions (\<lambda>n. 1000000) ?req ?xs = Some req'" by blast
  from retryDecisions_state [OF run]
  have "attempts req' = attempts ?req + of_nat (length ?xs)" by blast
  then have "attempts req' = 0"
    by (simp add: newRetriableRequestPS_def)
  with run show ?thesis by simp
qed

section \<open>Failing ends of the retry loop\<close>

lemma retryOrchMaybeRetry_keeps:
  "retryOrchMaybeRetry cb now req reason = ((b, wake), req') \<Longrightarrow>
     idempotent req' = idempotent req \<and> operation req' = operation req
     \<and> identifier req' = identifier req \<and> strategy req' = strategy req"
  by (auto simp: retryOrchMaybeRetry_def recordRetryAttempt_def Let_def
      split: if_splits option.splits)

text \<open>
  Every error the loop returns, after any number of turns, is of one of three kinds: a
  \<^verbatim>\<open>TimeoutError\<close> that carries the operation, the identifier, the reasons and the attempt
  counter of the request as the loop leaves it; the generic cancellation error; or the
  mapped error of a send that was not a timeout.
\<close>

lemma handleRetriableRequest_failures:
  "handleRetriableRequest cb mapPs isErrTimeout createdTime retryReasonFn req turns =
      Some (Inl f, req') \<Longrightarrow>
   (\<exists>err elapsed. f = ErrTimeoutError
        \<lparr>InnerError = err, OperationID = operation req', Opaque = identifier req',
         TimeObserved = elapsed, RetryReasons = reasons req',
         RetryAttempts = attempts req'\<rparr>
      \<and> (err = ErrUnambiguousTimeout \<or> isErrTimeout (mapPs err (idempotent req'))))
   \<or> f = ErrGenericError ErrRequestCanceled
   \<or> (\<exists>err. f = ErrMapped (mapPs err (idempotent req'))
         \<and> \<not> isErrTimeout (mapPs err (idempotent req')))"
proof (induction turns arbitrary: req)
  case Nil
  then show ?case by simp
next
  case (Cons turn rest)
  show ?case
  proof (cases "sendResult turn")
    case (Inr res)
    with Cons.prems show ?thesis by simp
  next
    case (Inl err)
    show ?thesis
    proof (cases "isErrTimeout (mapPs err (idempotent req))")
      case True
      with Inl Cons.prems show ?thesis by auto
    next
      case nt: False
      show ?thesis
      proof (cases "retryReasonFn (mapPs err (idempotent req))")
        case None
        with Inl nt Cons.prems show ?thesis by auto
      next
        case (Some reason)
        obtain b wake mid where
          d: "retryOrchMaybeRetry cb (decisionClock turn) req reason = ((b, wake), mid)"
          by (metis surj_pair)
        note k = retryOrchMaybeRetry_keeps [OF d]
        show ?thesis
        proof (cases b)
          case False
          with Inl nt Some d k Cons.prems show ?thesis by auto
        next
          case True
          show ?thesis
          proof (cases "waitOutcome turn")
            case TimerFired
            with Inl nt Some d True Cons.prems
            have "handleRetriableRequest cb mapPs isErrTimeout createdTime retryReasonFn mid rest
                = Some (Inl f, req')"
              by simp
            from Cons.IH [OF this] show ?thesis .
          next
            case (ContextDone ctxErr)
            with Inl nt Some d True k Cons.prems show ?thesis
              by (auto split: if_splits)
          qed
        qed
      qed
    qed
  qed
qed

text \<open>
  C5. A turn of the loop of \<^verbatim>\<open>handleRetriableRequest\<close>, on the request as earlier turns left
  it, whose send fails with \<open>err\<close>. When the mapped error is a timeout, the loop returns a
  \<^verbatim>\<open>TimeoutError\<close> with \<open>err\<close> as inner error, the operation name, the identifier, the time
  since \<open>createdTime\<close>, the reasons and the attempt counter of the request. When the error has
  a retry reason, the decision is to retry and the context is done before the timer with
  \<^verbatim>\<open>DeadlineExceeded\<close>, it returns a \<^verbatim>\<open>TimeoutError\<close> with the same fields, read after the
  attempt was recorded, and \<^verbatim>\<open>ErrUnambiguousTimeout\<close> as inner error. When the context is
  done with any other error, it returns the generic error around \<^verbatim>\<open>ErrRequestCanceled\<close>.
\<close>

theorem C5_failing_terminations:
  "(sendResult turn = Inl err \<and> isErrTimeout (mapPs err (idempotent req)) \<longrightarrow>
      handleRetriableRequest cb mapPs isErrTimeout createdTime retryReasonFn req (turn # rest) =
        Some (Inl (ErrTimeoutError
          \<lparr>InnerError = err, OperationID = operation req, Opaque = identifier req,
           TimeObserved = Time_Sub (failureClock turn) createdTime,
           RetryReasons = reasons req, RetryAttempts = attempts req\<rparr>), req))
   \<and> (sendResult turn = Inl err \<and> \<not> isErrTimeout (mapPs err (idempotent req))
        \<and> retryReasonFn (mapPs err (idempotent req)) = Some reason
        \<and> retryOrchMaybeRetry cb (decisionClock turn) req reason = ((True, retryWait), req')
        \<and> waitOutcome turn = ContextDone DeadlineExceeded \<longrightarrow>
      handleRetriableRequest cb mapPs isErrTimeout createdTime retryReasonFn req (turn # rest) =
        Some (Inl (ErrTimeoutError
          \<lparr>InnerError = ErrUnambiguousTimeout, OperationID = operation req',
           Opaque = identifier req',
           TimeObserved = Time_Sub (failureClock turn) createdTime,
           RetryReasons = reasons req', RetryAttempts = attempts req'\<rparr>), req')
      \<and> req' = recordRetryAttempt req reason)
   \<and> (sendResult turn = Inl err \<and> \<not> isErrTimeout (mapPs err (idempotent req))
        \<and> retryReasonFn (mapPs err (idempotent req)) = Some reason
        \<and> retryOrchMaybeRetry cb (decisionClock turn) req reason = ((True, retryWait), req')
        \<and> waitOutcome turn = ContextDone ctxErr \<and> ctxErr \<noteq> DeadlineExceeded \<longrightarrow>
      handleRetriableRequest cb mapPs isErrTimeout createdTime retryReasonFn req (turn # rest) =
        Some (Inl (ErrGenericError ErrRequestCanceled), req'))"
  by (auto dest: retry_true_records)

text \<open>
  The sample request, created at 100ns, in three turns: a send that times out; a send that
  fails with a retriable error and a deadline that passes during the wait; the same with a
  cancelled context.
\<close>

theorem C5_failing_terminations_witness:
  "handleRetriableRequest (\<lambda>n. 1000000) (\<lambda>e idem. e) (\<lambda>e. e = OtherError ''deadline'') 100
       sampleReasonFn sampleRequest [sampleTurn (OtherError ''deadline'') TimerFired]
     = Some (Inl (ErrTimeoutError
         \<lparr>InnerError = OtherError ''deadline'', OperationID = ''get'', Opaque = ''ab12cd'',
          TimeObserved = 800,
          RetryReasons = [\<lparr>AllowsNonIdempotentRetry = True, AlwaysRetry = False,
                           Description = ''SERVICE_NOT_AVAILABLE''\<rparr>],
          RetryAttempts = 2\<rparr>), sampleRequest)
   \<and> map_option fst
       (handleRetriableRequest (\<lambda>n. 1000000) (\<lambda>e idem. e) (\<lambda>e. e = OtherError ''deadline'') 100
          sampleReasonFn sampleRequest
          [sampleTurn (OtherError ''locked'') (ContextDone DeadlineExceeded)])
     = Some (Inl (ErrTimeoutError
         \<lparr>InnerError = ErrUnambiguousTimeout, OperationID = ''get'', Opaque = ''ab12cd'',
          TimeObserved = 800,
          RetryReasons = [\<lparr>AllowsNonIdempotentRetry = True, AlwaysRetry = False,
                           Description = ''SERVICE_NOT_AVAILABLE''\<rparr>,
                         \<lparr>AllowsNonIdempotentRetry = False, AlwaysRetry = False,
                           Description = ''KV_LOCKED''\<rparr>],
          RetryAttempts = 3\<rparr>))
   \<and> map_option fst
       (handleRetriableRequest (\<lambda>n. 1000000) (\<lambda>e idem. e) (\<lambda>e. e = OtherError ''deadline'') 100
          sampleReasonFn sampleRequest
          [sampleTurn (OtherError ''locked'') (ContextDone Canceled)])
     = Some (Inl (ErrGenericError ErrRequestCanceled))"
proof -
  let ?locked = "\<lparr>AllowsNonIdempotentRetry = False, AlwaysRetry = False,
      Description = ''KV_LOCKED''\<rparr>"
  have d: "retryOrchMaybeRetry (\<lambda>n. 1000000) 800 sampleRequest ?locked
      = ((True, 1800), recordRetryAttempt sampleRequest ?locked)"
    by (simp add: retryOrchMaybeRetry_def sampleRequest_def Let_def Time_Add_def)
  have r: "recordRetryAttempt sampleRequest ?locked
      = sampleRequest\<lparr>attempts := 3, reasons := reasons sampleRequest @ [?locked]\<rparr>"
    by (simp add: recordRetryAttempt_def sampleRequest_def Let_def)
  note inst = C5_failing_terminations [where cb = "\<lambda>n. 1000000" and mapPs = "\<lambda>e idem. e"
      and isErrTimeout = "\<lambda>e. e = OtherError ''deadline''" and createdTime = 100
      and retryReasonFn = sampleReasonFn and req = sampleRequest and rest = "[]"
      and reason = ?locked and retryWait = 1800
      and req' = "recordRetryAttempt sampleRequest ?locked"]
  have 1: "handleRetriableRequest (\<lambda>n. 1000000) (\<lambda>e idem. e) (\<lambda>e. e = OtherError ''deadline'') 100
       sampleReasonFn sampleRequest [sampleTurn (OtherError ''deadline'') TimerFired]
     = Some (Inl (ErrTimeoutError
         \<lparr>InnerError = OtherError ''deadline'', OperationID = ''get'', Opaque = ''ab12cd'',
          TimeObserved = 800,
          RetryReasons = [\<lparr>AllowsNonIdempotentRetry = True, AlwaysRetry = False,
                           Description = ''SERVICE_NOT_AVAILABLE''\<rparr>],
          RetryAttempts = 2\<rparr>), sampleRequest)"
    using inst [where turn = "sampleTurn (OtherError ''deadline'') TimerFired"
        and err = "OtherError ''deadline''"]
    by (simp add: sampleTurn_def Time_Sub_def) (simp add: sampleRequest_def)
  have 2: "map_option fst
       (handleRetriableRequest (\<lambda>n. 1000000) (\<lambda>e idem. e) (\<lambda>e. e = OtherError ''deadline'') 100
          sampleReasonFn sampleRequest
          [sampleTurn (OtherError ''locked'') (ContextDone DeadlineExceeded)])
     = Some (Inl (ErrTimeoutError
         \<lparr>InnerError = ErrUnambiguousTimeout, OperationID = ''get'', Opaque = ''ab12cd'',
          TimeObserved = 800,
          RetryReasons = [\<lparr>AllowsNonIdempotentRetry = True, AlwaysRetry = False,
                           Description = ''SERVICE_NOT_AVAILABLE''\<rparr>, ?locked],
          RetryAttempts = 3\<rparr>))"
    using inst [where turn = "sampleTurn (OtherError ''locked'') (ContextDone DeadlineExceeded)"
        and err = "OtherError ''locked''"] d
    by (simp add: sampleTurn_def sampleReasonFn_def Time_Sub_def r) (simp add: sampleRequest_def)
  have 3: "map_option fst
       (handleRetriableRequest (\<lambda>n. 1000000) (\<lambda>e idem. e) (\<lambda>e. e = OtherError ''deadline'') 100
          sampleReasonFn sampleRequest
          [sampleTurn (OtherError ''locked'') (ContextDone Canceled)])
     = Some (Inl (ErrGenericError ErrRequestCanceled))"
    using inst [where turn = "sampleTurn (OtherError ''locked'') (ContextDone Canceled)"
        and err = "OtherError ''locked''" and ctxErr = Canceled] d
    by (simp add: sampleTurn_def sampleReasonFn_def)
  from 1 2 3 show ?thesis by blast
qed

section \<open>The handlers of bulk operations\<close>

lemma docRequest_finishFn: "docRequest c (item\<lparr>finishFn := f\<rparr>) = docRequest c item"
  by (simp add: docRequest_def)



text \<open>
  C8. When the service answers a bulk get or get-and-touch with the compressed variant of
  the content, the handler sends the item with a \<^verbatim>\<open>GetResult\<close> holding those bytes as they
  are, the cas and the content flags of the response, and logs the warning. With the
  uncompressed variant carrying the same bytes the item sent is the same, and nothing is
  logged.
\<close>

theorem C8_compressed_passthrough:
  "(client_Get client (docRequest c item) = Inr res \<longrightarrow>
      (Content res = Some (ContentCompressed b) \<longrightarrow>
         Get l client c tc item =
           \<lparr>signalled = [item\<lparr>finishFn := Some ''get'',
                Result := Some (GetResult (Cas res) tc b (ContentFlags res))\<rparr>],
            warnings = [compressedWarning]\<rparr>)
      \<and> (Content res = Some (ContentUncompressed b) \<longrightarrow>
         Get l client c tc item =
           \<lparr>signalled = [item\<lparr>finishFn := Some ''get'',
                Result := Some (GetResult (Cas res) tc b (ContentFlags res))\<rparr>],
            warnings = []\<rparr>))
   \<and> (client_GetAndTouch client (docRequest c item) (expirySecs l Expiry) = Inr res \<longrightarrow>
      (Content res = Some (ContentCompressed b) \<longrightarrow>
         GetAndTouch l client c tc item Expiry =
           \<lparr>signalled = [item\<lparr>finishFn := Some ''get_and_touch'',
                Result := Some (GetResult (Cas res) tc b (ContentFlags res))\<rparr>],
            warnings = [compressedWarning]\<rparr>)
      \<and> (Content res = Some (ContentUncompressed b) \<longrightarrow>
         GetAndTouch l client c tc item Expiry =
           \<lparr>signalled = [item\<lparr>finishFn := Some ''get_and_touch'',
                Result := Some (GetResult (Cas res) tc b (ContentFlags res))\<rparr>],
            warnings = []\<rparr>))"
  by (simp add: Get_def GetAndTouch_def Let_def docRequest_finishFn)

text \<open>The sample service answers reads with three compressed bytes, cas 7 and flags 5.\<close>

theorem C8_compressed_passthrough_witness:
  "Get sampleLib sampleClient sampleCollection sampleTranscoder (sampleOp GetOp ''k2'') =
     \<lparr>signalled = [\<lparr>op = GetOp, ID = ''k2'',
          Result = Some (GetResult 7 sampleTranscoder [31, 139, 8] 5), Err = None,
          finishFn = Some ''get''\<rparr>],
      warnings = [compressedWarning]\<rparr>
   \<and> GetAndTouch sampleLib sampleClient sampleCollection sampleTranscoder
       (sampleOp (GetAndTouchOp 1000000000) ''k2'') 1000000000 =
     \<lparr>signalled = [\<lparr>op = GetAndTouchOp 1000000000, ID = ''k2'',
          Result = Some (GetResult 7 sampleTranscoder [31, 139, 8] 5), Err = None,
          finishFn = Some ''get_and_touch''\<rparr>],
      warnings = [compressedWarning]\<rparr>"
  using C8_compressed_passthrough [where client = sampleClient and c = sampleCollection
      and item = "sampleOp GetOp ''k2''" and l = sampleLib and tc = sampleTranscoder
      and res = "\<lparr>Cas = 7, Content = Some (ContentCompressed [31, 139, 8]), ContentFlags = 5\<rparr>"
      and b = "[31, 139, 8]"]
    C8_compressed_passthrough [where client = sampleClient and c = sampleCollection
      and item = "sampleOp (GetAndTouchOp 1000000000) ''k2''" and l = sampleLib
      and tc = sampleTranscoder and Expiry = 1000000000
      and res = "\<lparr>Cas = 7, Content = Some (ContentCompressed [31, 139, 8]), ContentFlags = 5\<rparr>"
      and b = "[31, 139, 8]"]
  by (simp add: sampleClient_def sampleOp_def)

text \<open>
  C9. When the call to the service fails with \<open>err\<close>, the handler of a bulk get puts
  \<^verbatim>\<open>mapPsErrorToGocbError(err, true)\<close> in the error slot of the item it sends; the handlers of
  the ten other kinds, get-and-touch among them, put \<^verbatim>\<open>mapPsErrorToGocbError(err, false)\<close>.
  (For upsert, insert and replace the call is made when the codec has encoded the value.)
\<close>

theorem C9_idempotent_flag:
  "(client_Get client (docRequest c item) = Inl err \<longrightarrow>
      map Err (signalled (Get l client c tc item)) = [Some (mapPsErrorToGocbError l err True)])
   \<and> (client_GetAndTouch client (docRequest c item) (expirySecs l Expiry) = Inl err \<longrightarrow>
      map Err (signalled (GetAndTouch l client c tc item Expiry))
        = [Some (mapPsErrorToGocbError l err False)])
   \<and> (client_Touch client (docRequest c item) (expirySecs l Expiry) = Inl err \<longrightarrow>
      map Err (signalled (Touch l client c item Expiry))
        = [Some (mapPsErrorToGocbError l err False)])
   \<and> (client_Remove client (docRequest c item) (if 0 < itemCas then Some itemCas else None)
        = Inl err \<longrightarrow>
      map Err (signalled (Remove l client c item itemCas))
        = [Some (mapPsErrorToGocbError l err False)])
   \<and> (tc Value = Inr (bytes, flags)
        \<and> client_Upsert client (docRequest c item) bytes flags
             (if 0 <s Expiry then Some (expirySecs l Expiry) else None) = Inl err \<longrightarrow>
      map Err (signalled (Upsert l client c tc item Value Expiry))
        = [Some (mapPsErrorToGocbError l err False)])
   \<and> (tc Value = Inr (bytes, flags)
        \<and> client_Insert client (docRequest c item) bytes flags
             (if 0 <s Expiry then Some (expirySecs l Expiry) else None) = Inl err \<longrightarrow>
      map Err (signalled (Insert l client c tc item Value Expiry))
        = [Some (mapPsErrorToGocbError l err False)])
   \<and> (tc Value = Inr (bytes, flags)
        \<and> client_Replace client (docRequest c item) bytes flags
             (if 0 < itemCas then Some itemCas else None)
             (if 0 <s Expiry then Some (expirySecs l Expiry) else None) = Inl err \<longrightarrow>
      map Err (signalled (Replace l client c tc item Value Expiry itemCas))
        = [Some (mapPsErrorToGocbError l err False)])
   \<and> (client_Append client (docRequest c item) (bytesOf Text) = Inl err \<longrightarrow>
      map Err (signalled (Append l client c item Text))
        = [Some (mapPsErrorToGocbError l err False)])
   \<and> (client_Prepend client (docRequest c item) (bytesOf Text) = Inl err \<longrightarrow>
      map Err (signalled (Prepend l client c item Text))
        = [Some (mapPsErrorToGocbError l err False)])
   \<and> (client_Increment client (docRequest c item) Delta
          (if 0 <s Expiry then Some (expirySecs l Expiry) else None) Initial = Inl err \<longrightarrow>
      map Err (signalled (Increment l client c item Delta Initial Expiry))
        = [Some (mapPsErrorToGocbError l err False)])
   \<and> (client_Decrement client (docRequest c item) Delta
          (if 0 <s Expiry then Some (expirySecs l Expiry) else None) Initial = Inl err \<longrightarrow>
      map Err (signalled (Decrement l client c item Delta Initial Expiry))
        = [Some (mapPsErrorToGocbError l err False)])"
  by (simp add: Get_def GetAndTouch_def Touch_def Remove_def Upsert_def Insert_def Replace_def
      Append_def Prepend_def Increment_def Decrement_def Let_def docRequest_finishFn)

text \<open>
  A service whose every call fails, and an error mapper that answers with the flag it was
  given: the eleven handlers in the order of the worker's type switch.
\<close>

theorem C9_idempotent_flag_witness:
  "[map Err (signalled (Get
        (sampleLib\<lparr>mapPsErrorToGocbError :=
           \<lambda>err idem. if idem then OtherError ''idempotent'' else OtherError ''not idempotent''\<rparr>)
        (failingClient (OtherError ''unavailable'')) sampleCollection sampleTranscoder
        (sampleOp GetOp ''k''))),
    map Err (signalled (GetAndTouch
        (sampleLib\<lparr>mapPsErrorToGocbError :=
           \<lambda>err idem. if idem then OtherError ''idempotent'' else OtherError ''not idempotent''\<rparr>)
        (failingClient (OtherError ''unavailable'')) sampleCollection sampleTranscoder
        (sampleOp GetOp ''k'') 5)),
    map Err (signalled (Touch
        (sampleLib\<lparr>mapPsErrorToGocbError :=
           \<lambda>err idem. if idem then OtherError ''idempotent'' else OtherError ''not idempotent''\<rparr>)
        (failingClient (OtherError ''unavailable'')) sampleCollection
        (sampleOp GetOp ''k'') 5)),
    map Err (signalled (Remove
        (sampleLib\<lparr>mapPsErrorToGocbError :=
           \<lambda>err idem. if idem then OtherError ''idempotent'' else OtherError ''not idempotent''\<rparr>)
        (failingClient (OtherError ''unavailable'')) sampleCollection
        (sampleOp GetOp ''k'') 0)),
    map Err (signalled (Upsert
        (sampleLib\<lparr>mapPsErrorToGocbError :=
           \<lambda>err idem. if idem then OtherError ''idempotent'' else OtherError ''not idempotent''\<rparr>)
        (failingClient (OtherError ''unavailable'')) sampleCollection sampleTranscoder
        (sampleOp GetOp ''k'') ''v'' 5)),
    map Err (signalled (Insert
        (sampleLib\<lparr>mapPsErrorToGocbError :=
           \<lambda>err idem. if idem then OtherError ''idempotent'' else OtherError ''not idempotent''\<rparr>)
        (failingClient (OtherError ''unavailable'')) sampleCollection sampleTranscoder
        (sampleOp GetOp ''k'') ''v'' 5)),
    map Err (signalled (Replace
        (sampleLib\<lparr>mapPsErrorToGocbError :=
           \<lambda>err idem. if idem then OtherError ''idempotent'' else OtherError ''not idempotent''\<rparr>)
        (failingClient (OtherError ''unavailable'')) sampleCollection sampleTranscoder
        (sampleOp GetOp ''k'') ''v'' 5 0)),
    map Err (signalled (Append
        (sampleLib\<lparr>mapPsErrorToGocbError :=
           \<lambda>err idem. if idem then OtherError ''idempotent'' else OtherError ''not idempotent''\<rparr>)
        (failingClient (OtherError ''unavailable'')) sampleCollection
        (sampleOp GetOp ''k'') ''t'')),
    map Err (signalled (Prepend
        (sampleLib\<lparr>mapPsErrorToGocbError :=
           \<lambda>err idem. if idem then OtherError ''idempotent'' else OtherError ''not idempotent''\<rparr>)
        (failingClient (OtherError ''unavailable'')) sampleCollection
        (sampleOp GetOp ''k'') ''t'')),
    map Err (signalled (Increment
        (sampleLib\<lparr>mapPsErrorToGocbError :=
           \<lambda>err idem. if idem then OtherError ''idempotent'' else OtherError ''not idempotent''\<rparr>)
        (failingClient (OtherError ''unavailable'')) sampleCollection
        (sampleOp GetOp ''k'') 1 0 5)),
    map Err (signalled (Decrement
        (sampleLib\<lparr>mapPsErrorToGocbError :=
           \<lambda>err idem. if idem then OtherError ''idempotent'' else OtherError ''not idempotent''\<rparr>)
        (failingClient (OtherError ''unavailable'')) sampleCollection
        (sampleOp GetOp ''k'') 1 0 5))]
   = [[Some (OtherError ''idempotent'')], [Some (OtherError ''not idempotent'')],
      [Some (OtherError ''not idempotent'')], [Some (OtherError ''not idempotent'')],
      [Some (OtherError ''not idempotent'')], [Some (OtherError ''not idempotent'')],
      [Some (OtherError ''not idempotent'')], [Some (OtherError ''not idempotent'')],
      [Some (OtherError ''not idempotent'')], [Some (OtherError ''not idempotent'')],
      [Some (OtherError ''not idempotent'')]]"
  using C9_idempotent_flag [where client = "failingClient (OtherError ''unavailable'')"
      and c = sampleCollection and item = "sampleOp GetOp ''k''"
      and l = "sampleLib\<lparr>mapPsErrorToGocbError :=
           \<lambda>err idem. if idem then OtherError ''idempotent'' else OtherError ''not idempotent''\<rparr>"
      and err = "OtherError ''unavailable''" and tc = sampleTranscoder and Expiry = 5
      and itemCas = 0 and Value = "''v''" and bytes = "[1]" and flags = 0 and Text = "''t''"
      and Delta = 1 and Initial = 0]
  by (simp add: failingClient_def sampleTranscoder_def word_sless_alt)

section \<open>A call of \<^verbatim>\<open>Do\<close>\<close>







section \<open>The two loops of \<^verbatim>\<open>Do\<close> and the workers\<close>














end
